theory Spec2Isabelle
  imports Complex_Main "HOL-Library.Multiset"
begin

section \<open>Floating-point cells of a pandas row\<close>

text \<open>
  A numeric cell of a pandas Series is a float64: a number, an infinity or NaN.
  The model keeps these four shapes and computes on exact reals; rounding error
  and the sign of zero are outside the model.  Comparisons with NaN are false, as
  in Python.
\<close>

datatype fl = Fin real | PInf | NInf | NaN

fun isna :: "fl \<Rightarrow> bool" where
  "isna NaN = True"
| "isna _ = False"

text \<open>\<open>fl_lt a b\<close> is Python's \<open>a < b\<close>, \<open>fl_le a b\<close> is \<open>a <= b\<close>,
  \<open>fl_eq a b\<close> is \<open>a == b\<close>.\<close>

fun fl_lt :: "fl \<Rightarrow> fl \<Rightarrow> bool" where
  "fl_lt (Fin a) (Fin b) = (a < b)"
| "fl_lt (Fin a) PInf = True"
| "fl_lt NInf (Fin b) = True"
| "fl_lt NInf PInf = True"
| "fl_lt _ _ = False"

fun fl_le :: "fl \<Rightarrow> fl \<Rightarrow> bool" where
  "fl_le (Fin a) (Fin b) = (a \<le> b)"
| "fl_le (Fin a) PInf = True"
| "fl_le NInf (Fin b) = True"
| "fl_le NInf PInf = True"
| "fl_le PInf PInf = True"
| "fl_le NInf NInf = True"
| "fl_le _ _ = False"

fun fl_eq :: "fl \<Rightarrow> fl \<Rightarrow> bool" where
  "fl_eq (Fin a) (Fin b) = (a = b)"
| "fl_eq PInf PInf = True"
| "fl_eq NInf NInf = True"
| "fl_eq _ _ = False"

fun fl_neg :: "fl \<Rightarrow> fl" where
  "fl_neg (Fin a) = Fin (- a)"
| "fl_neg PInf = NInf"
| "fl_neg NInf = PInf"
| "fl_neg NaN = NaN"

fun fl_abs :: "fl \<Rightarrow> fl" where
  "fl_abs (Fin a) = Fin \<bar>a\<bar>"
| "fl_abs PInf = PInf"
| "fl_abs NInf = PInf"
| "fl_abs NaN = NaN"

fun fl_add :: "fl \<Rightarrow> fl \<Rightarrow> fl" where
  "fl_add (Fin a) (Fin b) = Fin (a + b)"
| "fl_add NaN _ = NaN"
| "fl_add _ NaN = NaN"
| "fl_add PInf NInf = NaN"
| "fl_add NInf PInf = NaN"
| "fl_add PInf _ = PInf"
| "fl_add _ PInf = PInf"
| "fl_add NInf _ = NInf"
| "fl_add _ NInf = NInf"

definition fl_sub :: "fl \<Rightarrow> fl \<Rightarrow> fl" where
  "fl_sub a b = fl_add a (fl_neg b)"

text \<open>The sign of an infinite product or quotient: \<open>sgn_inf s\<close> for a real sign \<open>s\<close>.\<close>

definition sgn_inf :: "real \<Rightarrow> fl" where
  "sgn_inf s = (if s > 0 then PInf else if s < 0 then NInf else NaN)"

fun fl_mul :: "fl \<Rightarrow> fl \<Rightarrow> fl" where
  "fl_mul (Fin a) (Fin b) = Fin (a * b)"
| "fl_mul NaN _ = NaN"
| "fl_mul _ NaN = NaN"
| "fl_mul PInf (Fin b) = sgn_inf b"
| "fl_mul NInf (Fin b) = sgn_inf (- b)"
| "fl_mul (Fin a) PInf = sgn_inf a"
| "fl_mul (Fin a) NInf = sgn_inf (- a)"
| "fl_mul PInf PInf = PInf"
| "fl_mul NInf NInf = PInf"
| "fl_mul PInf NInf = NInf"
| "fl_mul NInf PInf = NInf"

text \<open>
  numpy division does not raise: a non-zero number over zero is an infinity and
  \<open>0/0\<close> is NaN.  Zero is taken as positive zero.
\<close>

fun fl_div :: "fl \<Rightarrow> fl \<Rightarrow> fl" where
  "fl_div (Fin a) (Fin b) = (if b = 0 then sgn_inf a else Fin (a / b))"
| "fl_div NaN _ = NaN"
| "fl_div _ NaN = NaN"
| "fl_div (Fin a) PInf = Fin 0"
| "fl_div (Fin a) NInf = Fin 0"
| "fl_div PInf (Fin b) = (if b \<ge> 0 then PInf else NInf)"
| "fl_div NInf (Fin b) = (if b \<ge> 0 then NInf else PInf)"
| "fl_div _ _ = NaN"

section \<open>Rows of derived indicators\<close>

text \<open>
  The row handed to \<open>_classify_wave_stage\<close> and \<open>_calculate_fundamental_score\<close>
  is a pandas Series read with \<open>row.get(key, default)\<close>.  Each field is \<open>None\<close>
  when the key is missing (the default is used) and \<open>Some v\<close> when it holds the
  cell \<open>v\<close>, which may be NaN.
\<close>

record indicator_row =
  close :: "fl option"
  ma5 :: "fl option"
  ma20 :: "fl option"
  ma50 :: "fl option"
  ma200 :: "fl option"
  rsi :: "fl option"
  volume_ma20 :: "fl option"
  volume_ratio :: "fl option"
  high_52w :: "fl option"
  low_52w :: "fl option"
  position_52w :: "fl option"
  price_change_5d :: "fl option"
  price_change_20d :: "fl option"
  price_change_60d :: "fl option"
  golden_cross :: "bool option"
  death_cross :: "bool option"
  ma_aligned :: "bool option"

text \<open>\<open>row.get(key, default)\<close>.\<close>

definition row_get :: "'a option \<Rightarrow> 'a \<Rightarrow> 'a" where
  "row_get field dflt = (case field of None \<Rightarrow> dflt | Some v \<Rightarrow> v)"

section \<open>The stage classifier\<close>

definition classify_wave_stage :: "indicator_row \<Rightarrow> int \<times> string" where
  "classify_wave_stage row =
    (let close_v = row_get (close row) (Fin 0);
         ma20_v = row_get (ma20 row) (Fin 0);
         ma50_v = row_get (ma50 row) (Fin 0);
         ma200_v = row_get (ma200 row) (Fin 0);
         rsi_v = row_get (rsi row) (Fin 50);
         position_v = row_get (position_52w row) (Fin 50);
         volume_ratio_v = row_get (volume_ratio row) (Fin 1);
         price_change_20d_v = row_get (price_change_20d row) (Fin 0);
         ma_aligned_v = row_get (ma_aligned row) False
     in
     if isna ma50_v \<or> isna ma200_v \<or> fl_eq ma50_v (Fin 0) \<or> fl_eq ma200_v (Fin 0)
       then (50, ''Insufficient Data'')
     else if ma_aligned_v \<and>
        fl_le (Fin 60) position_v \<and> fl_le position_v (Fin 90) \<and>
        fl_le (Fin 1.3) volume_ratio_v \<and>
        fl_le (Fin 55) rsi_v \<and> fl_le rsi_v (Fin 75) \<and>
        fl_le (Fin 0.10) price_change_20d_v
       then (90, ''Stage 2 Mid (Strong Uptrend)'')
     else if fl_lt ma50_v ma20_v \<and>
        fl_le (Fin 40) position_v \<and> fl_le position_v (Fin 75) \<and>
        fl_le (fl_mul ma20_v (Fin 0.98)) close_v \<and>
        fl_le (Fin 1.2) volume_ratio_v
       then (80, ''Stage 2 Early (Early Uptrend)'')
     else
       let ma_convergence =
             (if fl_lt (Fin 0) ma50_v
              then fl_lt (fl_div (fl_abs (fl_sub ma20_v ma50_v)) ma50_v) (Fin 0.03)
              else False)
       in
       if ma_convergence \<and>
          fl_le (Fin 25) position_v \<and> fl_le position_v (Fin 60) \<and>
          fl_le (Fin 45) rsi_v \<and> fl_le rsi_v (Fin 65)
         then (70, ''Stage 1-2 Transition'')
       else if fl_lt ma50_v ma20_v \<and>
          fl_le (Fin 30) position_v \<and> fl_le position_v (Fin 70) \<and>
          fl_le (Fin 0.8) volume_ratio_v
         then (60, ''General Uptrend'')
       else if fl_lt ma20_v ma50_v \<and> fl_lt ma50_v ma200_v \<and> fl_lt rsi_v (Fin 40)
         then (30, ''Stage 4 (Decline)'')
       else if fl_le (Fin 75) position_v \<and> fl_lt volume_ratio_v (Fin 0.8)
         then (40, ''Stage 3 (Distribution)'')
       else if fl_lt position_v (Fin 40) \<and> fl_lt (fl_abs price_change_20d_v) (Fin 0.05)
         then (50, ''Stage 1 (Base)'')
       else (50, ''Neutral''))"

text \<open>The conditions of rule 1 (score 90) and of rule 4 (score 60), as the
  classifier reads them from a row.\<close>

definition stage90_conditions :: "indicator_row \<Rightarrow> bool" where
  "stage90_conditions row =
    (row_get (ma_aligned row) False \<and>
     fl_le (Fin 60) (row_get (position_52w row) (Fin 50)) \<and>
     fl_le (row_get (position_52w row) (Fin 50)) (Fin 90) \<and>
     fl_le (Fin 1.3) (row_get (volume_ratio row) (Fin 1)) \<and>
     fl_le (Fin 55) (row_get (rsi row) (Fin 50)) \<and>
     fl_le (row_get (rsi row) (Fin 50)) (Fin 75) \<and>
     fl_le (Fin 0.10) (row_get (price_change_20d row) (Fin 0)))"

definition stage60_conditions :: "indicator_row \<Rightarrow> bool" where
  "stage60_conditions row =
    (fl_lt (row_get (ma50 row) (Fin 0)) (row_get (ma20 row) (Fin 0)) \<and>
     fl_le (Fin 30) (row_get (position_52w row) (Fin 50)) \<and>
     fl_le (row_get (position_52w row) (Fin 50)) (Fin 70) \<and>
     fl_le (Fin 0.8) (row_get (volume_ratio row) (Fin 1)))"

text \<open>The guard at the head of the classifier: MA50 and MA200 are numbers other
  than zero.\<close>

definition ma_usable :: "indicator_row \<Rightarrow> bool" where
  "ma_usable row =
    (\<not> isna (row_get (ma50 row) (Fin 0)) \<and> \<not> isna (row_get (ma200 row) (Fin 0)) \<and>
     \<not> fl_eq (row_get (ma50 row) (Fin 0)) (Fin 0) \<and>
     \<not> fl_eq (row_get (ma200 row) (Fin 0)) (Fin 0))"

section \<open>The fundamental approximator\<close>

definition calculate_fundamental_score :: "indicator_row \<Rightarrow> int" where
  "calculate_fundamental_score row =
    (let score = 10;
         volume_ratio_v = row_get (volume_ratio row) (Fin 1);
         score = (if fl_le (Fin 1.5) volume_ratio_v then score + 5
                  else if fl_le (Fin 1.2) volume_ratio_v then score + 3
                  else score);
         rsi_v = row_get (rsi row) (Fin 50);
         score = (if fl_le (Fin 50) rsi_v \<and> fl_le rsi_v (Fin 70) then score + 5
                  else if fl_le (Fin 40) rsi_v \<and> fl_lt rsi_v (Fin 50) then score + 2
                  else score)
     in min 20 score)"

section \<open>Deriving the indicators\<close>

text \<open>
  One row of the price table of one instrument.  The bars hold numbers: prices
  and volumes are finite and not NaN.  Dates are day numbers.
\<close>

record price_bar =
  bar_ticker :: string
  bar_date :: int
  bar_open :: real
  bar_high :: real
  bar_low :: real
  bar_close :: real
  bar_volume :: real

text \<open>The trailing window of width \<open>w\<close> that ends at row \<open>i\<close>: rows
  \<open>max 0 (i + 1 - w)\<close> to \<open>i\<close>.\<close>

definition window :: "nat \<Rightarrow> nat \<Rightarrow> 'a list \<Rightarrow> 'a list" where
  "window w i xs = drop (Suc i - w) (take (Suc i) xs)"

definition mean :: "real list \<Rightarrow> real" where
  "mean xs = sum_list xs / real (length xs)"

text \<open>\<open>s.rolling(window=w, min_periods=1).mean()\<close> on a series without NaN:
  every window holds at least the row itself.\<close>

definition rolling_mean :: "nat \<Rightarrow> real list \<Rightarrow> real list" where
  "rolling_mean w xs = map (\<lambda>i. mean (window w i xs)) [0..<length xs]"

text \<open>\<open>s.rolling(window=w, min_periods=mp).max()\<close> and \<open>.min()\<close>: NaN (\<open>None\<close>)
  until the window holds \<open>mp\<close> rows.\<close>

definition rolling_extreme ::
  "(real \<Rightarrow> real \<Rightarrow> real) \<Rightarrow> nat \<Rightarrow> nat \<Rightarrow> real list \<Rightarrow> real option list" where
  "rolling_extreme pick w mp xs =
     map (\<lambda>i. case window w i xs of
                 [] \<Rightarrow> None
               | x # rest \<Rightarrow> if length (x # rest) < mp then None else Some (fold pick rest x))
         [0..<length xs]"

text \<open>\<open>s.diff()\<close>: NaN on the first row.\<close>

definition diff :: "real list \<Rightarrow> real option list" where
  "diff xs = map (\<lambda>i. if i = 0 then None else Some (xs ! i - xs ! (i - 1))) [0..<length xs]"

text \<open>\<open>delta.where(delta > 0, 0)\<close> and \<open>-delta.where(delta < 0, 0)\<close>: a NaN
  fails the comparison and becomes 0.\<close>

definition gain_raw :: "real option list \<Rightarrow> real list" where
  "gain_raw delta = map (\<lambda>d. case d of None \<Rightarrow> 0 | Some x \<Rightarrow> if x > 0 then x else 0) delta"

definition loss_raw :: "real option list \<Rightarrow> real list" where
  "loss_raw delta = map (\<lambda>d. - (case d of None \<Rightarrow> 0 | Some x \<Rightarrow> if x < 0 then x else 0)) delta"

definition rsi_gain :: "real list \<Rightarrow> real list" where
  "rsi_gain closes = rolling_mean 14 (gain_raw (diff closes))"

definition rsi_loss :: "real list \<Rightarrow> real list" where
  "rsi_loss closes = rolling_mean 14 (loss_raw (diff closes))"

text \<open>\<open>s.replace(0, v)\<close> on one cell, with \<open>v\<close> a number or NaN.\<close>

definition replace_zero :: "real option \<Rightarrow> real \<Rightarrow> real option" where
  "replace_zero v x = (if x = 0 then v else Some x)"

text \<open>\<open>rs = gain / loss.replace(0, np.nan)\<close>, \<open>100 - (100 / (1 + rs))\<close>, then
  \<open>fillna(50)\<close>.\<close>

definition rsi_of :: "real \<Rightarrow> real \<Rightarrow> fl" where
  "rsi_of gain loss =
    (let rs = (case replace_zero None loss of None \<Rightarrow> NaN | Some l \<Rightarrow> fl_div (Fin gain) (Fin l));
         raw = fl_sub (Fin 100) (fl_div (Fin 100) (fl_add (Fin 1) rs))
     in if isna raw then Fin 50 else raw)"

definition rsi_column :: "real list \<Rightarrow> fl list" where
  "rsi_column closes = map2 rsi_of (rsi_gain closes) (rsi_loss closes)"

definition volume_ma20_column :: "real list \<Rightarrow> real list" where
  "volume_ma20_column volumes = rolling_mean 20 volumes"

text \<open>\<open>df['volume'] / df['volume_ma20'].replace(0, 1)\<close>.\<close>

definition volume_ratio_of :: "real \<Rightarrow> real \<Rightarrow> fl" where
  "volume_ratio_of vol vma =
    (case replace_zero (Some 1) vma of None \<Rightarrow> NaN | Some d \<Rightarrow> fl_div (Fin vol) (Fin d))"

definition volume_ratio_column :: "real list \<Rightarrow> fl list" where
  "volume_ratio_column volumes = map2 volume_ratio_of volumes (volume_ma20_column volumes)"

definition to_fl :: "real option \<Rightarrow> fl" where
  "to_fl v = (case v of None \<Rightarrow> NaN | Some x \<Rightarrow> Fin x)"

text \<open>\<open>((close - low_52w) / price_range.replace(0, 1)) * 100\<close> with
  \<open>price_range = high_52w - low_52w\<close>; NaN while the 52-week columns are NaN.\<close>

definition position_of :: "real \<Rightarrow> real option \<Rightarrow> real option \<Rightarrow> fl" where
  "position_of c hi lo =
    (case (hi, lo) of
       (Some h, Some l) \<Rightarrow>
         (case replace_zero (Some 1) (h - l) of
            None \<Rightarrow> NaN
          | Some d \<Rightarrow> fl_mul (fl_div (Fin (c - l)) (Fin d)) (Fin 100))
     | _ \<Rightarrow> NaN)"

text \<open>\<open>s.pct_change(n)\<close>: \<open>s / s.shift(n) - 1\<close>, NaN on the first \<open>n\<close> rows.\<close>

definition pct_change :: "nat \<Rightarrow> real list \<Rightarrow> fl list" where
  "pct_change n xs =
     map (\<lambda>i. if i < n then NaN else fl_sub (fl_div (Fin (xs ! i)) (Fin (xs ! (i - n)))) (Fin 1))
         [0..<length xs]"

text \<open>Golden and death cross: the comparison with the shifted columns is false on
  the first row, where the shifted cells are NaN.\<close>

definition golden_cross_at :: "real list \<Rightarrow> real list \<Rightarrow> nat \<Rightarrow> bool" where
  "golden_cross_at m20 m50 i =
     (m20 ! i > m50 ! i \<and> (i \<noteq> 0 \<and> m20 ! (i - 1) \<le> m50 ! (i - 1)))"

definition death_cross_at :: "real list \<Rightarrow> real list \<Rightarrow> nat \<Rightarrow> bool" where
  "death_cross_at m20 m50 i =
     (m20 ! i < m50 ! i \<and> (i \<noteq> 0 \<and> m20 ! (i - 1) \<ge> m50 ! (i - 1)))"

definition calculate_technical_indicators :: "price_bar list \<Rightarrow> indicator_row list" where
  "calculate_technical_indicators df =
    (let closes = map bar_close df;
         volumes = map bar_volume df;
         c_ma5 = rolling_mean 5 closes;
         c_ma20 = rolling_mean 20 closes;
         c_ma50 = rolling_mean 50 closes;
         c_ma200 = rolling_mean 200 closes;
         c_rsi = rsi_column closes;
         c_vma = volume_ma20_column volumes;
         c_vratio = volume_ratio_column volumes;
         c_high = rolling_extreme max 252 20 (map bar_high df);
         c_low = rolling_extreme min 252 20 (map bar_low df);
         c_chg5 = pct_change 5 closes;
         c_chg20 = pct_change 20 closes;
         c_chg60 = pct_change 60 closes
     in map (\<lambda>i.
          \<lparr> close = Some (Fin (closes ! i)),
            ma5 = Some (Fin (c_ma5 ! i)),
            ma20 = Some (Fin (c_ma20 ! i)),
            ma50 = Some (Fin (c_ma50 ! i)),
            ma200 = Some (Fin (c_ma200 ! i)),
            rsi = Some (c_rsi ! i),
            volume_ma20 = Some (Fin (c_vma ! i)),
            volume_ratio = Some (c_vratio ! i),
            high_52w = Some (to_fl (c_high ! i)),
            low_52w = Some (to_fl (c_low ! i)),
            position_52w = Some (position_of (closes ! i) (c_high ! i) (c_low ! i)),
            price_change_5d = Some (c_chg5 ! i),
            price_change_20d = Some (c_chg20 ! i),
            price_change_60d = Some (c_chg60 ! i),
            golden_cross = Some (golden_cross_at c_ma20 c_ma50 i),
            death_cross = Some (death_cross_at c_ma20 c_ma50 i),
            ma_aligned = Some (c_ma20 ! i > c_ma50 ! i \<and> c_ma50 ! i > c_ma200 ! i) \<rparr>)
        [0..<length df])"

section \<open>The score aggregator\<close>

text \<open>
  The investment grades.  The source writes them as Korean strings: the letter
  followed by the advice (S: buy at once, A: strong buy, B: consider buying,
  C: neutral, D: consider selling, F: avoid).  \<open>Grade_Unscorable\<close> is the marker
  of the short-history result ("analysis not possible") and \<open>Grade_Error\<close> the
  marker of the per-instrument error record ("analysis error").
\<close>

datatype grade =
  Grade_S | Grade_A | Grade_B | Grade_C | Grade_D | Grade_F | Grade_Unscorable | Grade_Error

text \<open>
  One row of the flow table \<open>institutional_df\<close>, the table written by
  \<open>collect_all_institutional_data\<close>: its score column holds the integer returned
  by \<open>calculate_supply_demand_score\<close> (or the integer 0).  A field is \<open>None\<close>
  when the column is missing.
\<close>

record inst_row =
  inst_ticker :: string
  inst_score :: "int option"
  inst_stage :: "string option"

text \<open>The analyzer after construction: the price table and the optional flow
  table.\<close>

record analyzer =
  prices_df :: "price_bar list"
  institutional_df :: "inst_row list option"

text \<open>
  The result dictionary.  The short-history result has the first five keys only
  (\<open>detail = None\<close>).  Of the other keys the model keeps the three sub-scores and
  the price; name, market, date and the rounded copies of the indicators are
  display copies of the latest row.
\<close>

record analysis_detail =
  current_price :: fl
  supply_demand_score :: int
  supply_demand_stage :: string
  fundamental_score :: int

record analysis_result =
  ticker :: string
  wave_score :: int
  wave_stage :: string
  final_investment_score :: real
  investment_grade :: grade
  detail :: "analysis_detail option"

text \<open>Python's \<open>round(x, n)\<close> on exact values: the nearest multiple of
  \<open>10^-n\<close>, a tie going to the even one.\<close>

definition round_half_even :: "real \<Rightarrow> int" where
  "round_half_even x =
    (let f = \<lfloor>x\<rfloor>; d = x - of_int f
     in if d < 1/2 then f else if d > 1/2 then f + 1 else if even f then f else f + 1)"

definition py_round :: "real \<Rightarrow> nat \<Rightarrow> real" where
  "py_round x n = of_int (round_half_even (x * 10 ^ n)) / 10 ^ n"

definition grade_of :: "real \<Rightarrow> grade" where
  "grade_of final_score =
    (if final_score \<ge> 85 then Grade_S
     else if final_score \<ge> 75 then Grade_A
     else if final_score \<ge> 65 then Grade_B
     else if final_score \<ge> 55 then Grade_C
     else if final_score \<ge> 45 then Grade_D
     else Grade_F)"

definition insufficient_result :: "string \<Rightarrow> analysis_result" where
  "insufficient_result tk =
    \<lparr> ticker = tk, wave_score = 0, wave_stage = ''Insufficient Data'',
      final_investment_score = 0, investment_grade = Grade_Unscorable, detail = None \<rparr>"

text \<open>The flow score and stage of a ticker: the first row of the flow table
  with that ticker, \<open>(0, N/A)\<close> without a table or a row.\<close>

definition lookup_supply_demand :: "inst_row list option \<Rightarrow> string \<Rightarrow> int \<times> string" where
  "lookup_supply_demand idf tk =
    (case idf of
       None \<Rightarrow> (0, ''N/A'')
     | Some rows \<Rightarrow>
         (if rows = [] then (0, ''N/A'')
          else case filter (\<lambda>r. inst_ticker r = tk) rows of
                 [] \<Rightarrow> (0, ''N/A'')
               | r # _ \<Rightarrow> (row_get (inst_score r) 0, row_get (inst_stage r) ''N/A'')))"

definition analyze_stock :: "analyzer \<Rightarrow> string \<Rightarrow> analysis_result" where
  "analyze_stock self tk =
    (let stock_data = filter (\<lambda>b. bar_ticker b = tk) (prices_df self)
     in if stock_data = [] \<or> length stock_data < 20 then insufficient_result tk
        else
          let latest = last (calculate_technical_indicators stock_data);
              (w_score, w_stage) = classify_wave_stage latest;
              f_score = calculate_fundamental_score latest;
              (sd_score, sd_stage) = lookup_supply_demand (institutional_df self) tk;
              final_score = (of_int w_score * 0.6) + (of_int f_score * 1.0) + (of_int sd_score * 0.2)
          in \<lparr> ticker = tk, wave_score = w_score, wave_stage = w_stage,
               final_investment_score = py_round final_score 2,
               investment_grade = grade_of final_score,
               detail = Some \<lparr> current_price = row_get (close latest) (Fin 0),
                               supply_demand_score = sd_score,
                               supply_demand_stage = sd_stage,
                               fundamental_score = f_score \<rparr> \<rparr>)"




text \<open>The flow table is sorted by its date column, ascending.\<close>

definition sorts_ascending :: "('a \<Rightarrow> int) \<Rightarrow> ('a list \<Rightarrow> 'a list) \<Rightarrow> bool" where
  "sorts_ascending key srt =
    (\<forall>xs. mset (srt xs) = mset xs \<and> sorted_wrt (\<lambda>a b. key a \<le> key b) (srt xs))"




section \<open>Flow metrics\<close>

text \<open>
  The parsed flow table of one instrument.  A cell is \<open>None\<close> when it is NaN; a
  column may be missing altogether.
\<close>

record flow_row =
  date :: int
  institutional :: "real option"
  foreign :: "real option"

record flow_frame =
  has_institutional :: bool
  has_foreign :: bool
  flow_rows :: "flow_row list"

definition fillna0 :: "real option \<Rightarrow> real" where
  "fillna0 v = (case v of None \<Rightarrow> 0 | Some x \<Rightarrow> x)"

text \<open>\<open>s.tail(n)\<close>.\<close>

definition tail :: "nat \<Rightarrow> 'a list \<Rightarrow> 'a list" where
  "tail n xs = drop (length xs - n) xs"

text \<open>The streak loop: count from the most recent value backwards while the
  value is positive.\<close>

fun consecutive_buy :: "real list \<Rightarrow> nat" where
  "consecutive_buy [] = 0"
| "consecutive_buy (val # rest) = (if val > 0 then Suc (consecutive_buy rest) else 0)"

text \<open>\<open>(recent_20 > 0).sum() / len(recent_20) if len(recent_20) > 0 else 0\<close>.\<close>

definition buy_ratio :: "real list \<Rightarrow> real" where
  "buy_ratio recent_20 =
    (if length recent_20 > 0
     then real (length (filter (\<lambda>v. v > 0) recent_20)) / real (length recent_20)
     else 0)"

text \<open>\<open>np.polyfit(x, y, 1)[0]\<close> with \<open>x = 0, 1, ..., len(y) - 1\<close>: the slope of the
  least-squares line, in closed form on exact values.\<close>

definition polyfit_slope :: "real list \<Rightarrow> real" where
  "polyfit_slope ys =
    (let n = real (length ys);
         xs = map real [0..<length ys];
         sx = sum_list xs;
         sy = sum_list ys;
         sxy = sum_list (map2 (*) xs ys);
         sxx = sum_list (map (\<lambda>x. x * x) xs)
     in (n * sxy - sx * sy) / (n * sxx - sx * sx))"

text \<open>The metrics of one investor class, as dictionary entries in insertion
  order; \<open>p\<close> is the key prefix.\<close>

definition class_metrics :: "string \<Rightarrow> real list \<Rightarrow> (string \<times> real) list" where
  "class_metrics p series =
    [(p @ ''_5d_sum'', sum_list (tail 5 series)),
     (p @ ''_10d_sum'', sum_list (tail 10 series)),
     (p @ ''_20d_sum'', sum_list (tail 20 series)),
     (p @ ''_consecutive_buy'', real (consecutive_buy (rev (tail 10 series)))),
     (p @ ''_buy_ratio'', buy_ratio (tail 20 series))] @
    (if length series \<ge> 5 \<and> length (tail 20 series) > 1
     then [(p @ ''_trend_slope'', polyfit_slope (tail 20 series))] else [])"

definition calculate_trend_metrics ::
  "(flow_row list \<Rightarrow> flow_row list) \<Rightarrow> flow_frame \<Rightarrow> (string \<times> real) list" where
  "calculate_trend_metrics sort_values df =
    (if flow_rows df = [] \<or> length (flow_rows df) < 5 then []
     else
       let rows = sort_values (flow_rows df)
       in (if has_institutional df
           then class_metrics ''inst'' (map (\<lambda>r. fillna0 (institutional r)) rows) else []) @
          (if has_foreign df
           then class_metrics ''frgn'' (map (\<lambda>r. fillna0 (foreign r)) rows) else []))"

section \<open>The flow scorer\<close>

text \<open>\<open>metrics.get(key, 0)\<close>.\<close>

definition metrics_get :: "(string \<times> real) list \<Rightarrow> string \<Rightarrow> real" where
  "metrics_get metrics k = (case map_of metrics k of None \<Rightarrow> 0 | Some v \<Rightarrow> v)"

text \<open>
  The source starts at \<open>score = 50\<close> and runs ten statements
  \<open>if cond: score += pts\<close> (the last two \<open>score -= 10\<close>); \<open>bonus cond pts\<close> is
  what one of them adds.  The sum below keeps their order.
\<close>

definition bonus :: "bool \<Rightarrow> int \<Rightarrow> int" where
  "bonus c pts = (if c then pts else 0)"

definition raw_supply_demand_score :: "(string \<times> real) list \<Rightarrow> int" where
  "raw_supply_demand_score metrics =
     50
     + bonus (metrics_get metrics ''inst_20d_sum'' > 0) 10
     + bonus (metrics_get metrics ''inst_consecutive_buy'' \<ge> 3) 10
     + bonus (metrics_get metrics ''inst_buy_ratio'' \<ge> 0.6) 5
     + bonus (metrics_get metrics ''inst_trend_slope'' > 0) 5
     + bonus (metrics_get metrics ''frgn_20d_sum'' > 0) 10
     + bonus (metrics_get metrics ''frgn_consecutive_buy'' \<ge> 3) 10
     + bonus (metrics_get metrics ''frgn_buy_ratio'' \<ge> 0.6) 5
     + bonus (metrics_get metrics ''frgn_trend_slope'' > 0) 5
     - bonus (metrics_get metrics ''inst_20d_sum'' < 0) 10
     - bonus (metrics_get metrics ''frgn_20d_sum'' < 0) 10"

definition supply_demand_stage_of :: "int \<Rightarrow> string" where
  "supply_demand_stage_of score =
    (if score \<ge> 80 then ''Strong Accumulation''
     else if score \<ge> 65 then ''Accumulation''
     else if score \<ge> 50 then ''Neutral''
     else if score \<ge> 35 then ''Distribution''
     else ''Strong Distribution'')"

definition calculate_supply_demand_score :: "(string \<times> real) list \<Rightarrow> int \<times> string" where
  "calculate_supply_demand_score metrics =
    (if metrics = [] then (0, ''Unknown'')
     else
       let score = max 0 (min 100 (raw_supply_demand_score metrics))
       in (score, supply_demand_stage_of score))"

section \<open>Concrete inputs\<close>

text \<open>A row that meets the conditions of rules 1 and 4 while its MA200 is zero,
  and the same row with usable moving averages.\<close>

definition guarded_row :: indicator_row where
  "guarded_row =
    \<lparr> close = Some (Fin 2), ma5 = Some (Fin 2), ma20 = Some (Fin 2), ma50 = Some (Fin 1),
      ma200 = Some (Fin 0), rsi = Some (Fin 60), volume_ma20 = Some (Fin 1),
      volume_ratio = Some (Fin 1.5), high_52w = Some (Fin 3), low_52w = Some (Fin 1),
      position_52w = Some (Fin 65), price_change_5d = Some (Fin 0.05),
      price_change_20d = Some (Fin 0.2), price_change_60d = Some (Fin 0.3),
      golden_cross = Some False, death_cross = Some False, ma_aligned = Some True \<rparr>"

definition uptrend_row :: indicator_row where
  "uptrend_row =
     guarded_row \<lparr> ma20 := Some (Fin 3), ma50 := Some (Fin 2), ma200 := Some (Fin 1) \<rparr>"

text \<open>A bar whose open, high, low and close are the same price.\<close>

definition mk_bar :: "string \<Rightarrow> int \<Rightarrow> real \<Rightarrow> real \<Rightarrow> price_bar" where
  "mk_bar tk d c v =
    \<lparr> bar_ticker = tk, bar_date = d, bar_open = c, bar_high = c, bar_low = c,
      bar_close = c, bar_volume = v \<rparr>"

text \<open>Three bars: closes 10, 12, 11 and volumes 0, 0, 5.\<close>

definition three_bars :: "price_bar list" where
  "three_bars = [mk_bar ''000001'' 1 10 0, mk_bar ''000001'' 2 12 0, mk_bar ''000001'' 3 11 5]"

text \<open>Twenty bars of one ticker at a constant price and volume.\<close>

definition flat20 :: "string \<Rightarrow> price_bar list" where
  "flat20 tk = map (\<lambda>d. mk_bar tk (int d) 10 1) [0..<20]"

text \<open>A universe of three tickers: twenty bars, two bars, twenty bars; the flow
  table knows the third only.\<close>

definition universe3 :: analyzer where
  "universe3 =
    \<lparr> prices_df = flat20 ''000001'' @
                  [mk_bar ''000002'' 1 20 50, mk_bar ''000002'' 2 21 50] @
                  flat20 ''000003'',
      institutional_df =
        Some [\<lparr> inst_ticker = ''000003'', inst_score = Some 70,
                inst_stage = Some ''Accumulation'' \<rparr>] \<rparr>"



text \<open>Six flow rows out of date order, with a NaN in each class, and five rows
  of institutional buying.\<close>

definition six_days :: flow_frame where
  "six_days =
    \<lparr> has_institutional = True, has_foreign = True,
      flow_rows = [\<lparr> date = 3, institutional = Some 2, foreign = Some (- 4) \<rparr>,
                   \<lparr> date = 1, institutional = Some 1, foreign = Some 7 \<rparr>,
                   \<lparr> date = 2, institutional = Some (- 1), foreign = None \<rparr>,
                   \<lparr> date = 4, institutional = None, foreign = Some 1 \<rparr>,
                   \<lparr> date = 5, institutional = Some 3, foreign = Some 2 \<rparr>,
                   \<lparr> date = 6, institutional = Some 4, foreign = Some 5 \<rparr>] \<rparr>"

definition five_days :: flow_frame where
  "five_days =
    \<lparr> has_institutional = True, has_foreign = False,
      flow_rows = map (\<lambda>d. \<lparr> date = d, institutional = Some 100, foreign = None \<rparr>)
                      [1, 2, 3, 4, 5] \<rparr>"

text \<open>The metrics of the scenario: institutional buying, foreign selling.\<close>

definition scenario_metrics :: "(string \<times> real) list" where
  "scenario_metrics =
    [(''inst_5d_sum'', 200), (''inst_10d_sum'', 350), (''inst_20d_sum'', 500),
     (''inst_consecutive_buy'', 4), (''inst_buy_ratio'', 0.7), (''inst_trend_slope'', 12.5),
     (''frgn_5d_sum'', - 100), (''frgn_10d_sum'', - 150), (''frgn_20d_sum'', - 300),
     (''frgn_consecutive_buy'', 0), (''frgn_buy_ratio'', 0.3), (''frgn_trend_slope'', - 2)]"

definition selling_metrics :: "(string \<times> real) list" where
  "selling_metrics = [(''inst_20d_sum'', - 5), (''frgn_20d_sum'', - 1)]"

section \<open>Auxiliary facts\<close>

subsection \<open>Rolling means\<close>

lemma length_rolling_mean: "length (rolling_mean w xs) = length xs"
  by (simp add: rolling_mean_def)





subsection \<open>Average gain and loss\<close>










subsection \<open>Fields of the derived rows\<close>


lemma volume_ratio_of_row:
  "i < length df \<Longrightarrow>
   volume_ratio (calculate_technical_indicators df ! i) =
     Some (volume_ratio_column (map bar_volume df) ! i)"
  by (simp add: calculate_technical_indicators_def Let_def)

lemma volume_ma20_of_row:
  "i < length df \<Longrightarrow>
   volume_ma20 (calculate_technical_indicators df ! i) =
     Some (Fin (volume_ma20_column (map bar_volume df) ! i))"
  by (simp add: calculate_technical_indicators_def Let_def)

lemma volume_ratio_of_cases:
  "volume_ratio_of v m = (if m = 0 then Fin v else Fin (v / m))"
  by (simp add: volume_ratio_of_def replace_zero_def)

subsection \<open>Rounding a score\<close>

lemma round_half_even_int: "round_half_even (of_int k) = k"
  by (simp add: round_half_even_def)

text \<open>With three integer sub-scores the weighted sum is a multiple of 0.2, and
  rounding to two decimals leaves it as it is.\<close>

lemma py_round_score:
  "py_round (of_int a * 0.6 + of_int b * 1.0 + of_int c * 0.2) 2 =
     of_int a * 0.6 + of_int b * 1.0 + of_int c * 0.2"
proof -
  have "(of_int a * 0.6 + of_int b * 1.0 + of_int c * 0.2) * 10 ^ 2 =
        (of_int (60 * a + 100 * b + 20 * c) :: real)"
    by (simp add: algebra_simps)
  then show ?thesis
    unfolding py_round_def by (simp only: round_half_even_int) simp
qed

subsection \<open>Sorting routines\<close>




lemma sort_key_date_contract: "sorts_ascending date (sort_key date)"
proof -
  have "sorted_wrt (\<lambda>a b. date a \<le> date b) (sort_key date xs)" for xs
    using sorted_sort_key [of date xs] by (simp add: sorted_map)
  then show ?thesis by (auto simp add: sorts_ascending_def)
qed

subsection \<open>Flow metrics and scores\<close>

lemma length_tail: "length (tail n xs) = min n (length xs)"
  by (simp add: tail_def)

lemma map_of_inst_buy_ratio:
  "map_of (class_metrics ''inst'' s @ rest) ''inst_buy_ratio'' = Some (buy_ratio (tail 20 s))"
  by (simp add: class_metrics_def)

lemma map_of_frgn_buy_ratio:
  "map_of ((if c then class_metrics ''inst'' s else []) @ class_metrics ''frgn'' t)
     ''frgn_buy_ratio'' = Some (buy_ratio (tail 20 t))"
  by (simp add: class_metrics_def)

lemma buy_ratio_tail:
  assumes "5 \<le> length s"
  shows "buy_ratio (tail 20 s) =
     real (length (filter (\<lambda>v. v > 0) (tail 20 s))) / real (min 20 (length s))"
  using assms by (simp add: buy_ratio_def length_tail)

lemma raw_score_lower: "30 \<le> raw_supply_demand_score m"
proof -
  have "bonus (metrics_get m ''inst_20d_sum'' < 0) 10 \<le> 10"
       "bonus (metrics_get m ''frgn_20d_sum'' < 0) 10 \<le> 10"
       "0 \<le> bonus (metrics_get m ''inst_20d_sum'' > 0) 10"
       "0 \<le> bonus (metrics_get m ''inst_consecutive_buy'' \<ge> 3) 10"
       "0 \<le> bonus (metrics_get m ''inst_buy_ratio'' \<ge> 0.6) 5"
       "0 \<le> bonus (metrics_get m ''inst_trend_slope'' > 0) 5"
       "0 \<le> bonus (metrics_get m ''frgn_20d_sum'' > 0) 10"
       "0 \<le> bonus (metrics_get m ''frgn_consecutive_buy'' \<ge> 3) 10"
       "0 \<le> bonus (metrics_get m ''frgn_buy_ratio'' \<ge> 0.6) 5"
       "0 \<le> bonus (metrics_get m ''frgn_trend_slope'' > 0) 5"
    by (simp_all add: bonus_def)
  then show ?thesis unfolding raw_supply_demand_score_def by linarith
qed

section \<open>The stage classifier: precedence of rule 1\<close>

text \<open>
  C1 (as amended).  For every row whose MA50 and MA200 are numbers other than
  zero and whose fields meet both the conditions of rule 1 (ma_aligned,
  60 \<le> position52w \<le> 90, volumeRatio \<ge> 1.3, 55 \<le> RSI \<le> 75, change20d \<ge> 0.10)
  and those of rule 4 (MA20 > MA50, 30 \<le> position52w \<le> 70, volumeRatio \<ge> 0.8),
  the classifier returns score 90 with the Strong Uptrend label: the first
  matching rule of the cascade wins.
\<close>

theorem classify_stage90_first:
  assumes "ma_usable row" and "stage90_conditions row" and "stage60_conditions row"
  shows "classify_wave_stage row = (90, ''Stage 2 Mid (Strong Uptrend)'')"
  using assms
  by (simp add: classify_wave_stage_def ma_usable_def stage90_conditions_def Let_def)

theorem classify_stage90_first_witness:
  "ma_usable uptrend_row \<and> stage90_conditions uptrend_row \<and> stage60_conditions uptrend_row \<and>
   classify_wave_stage uptrend_row = (90, ''Stage 2 Mid (Strong Uptrend)'')"
proof -
  have u: "ma_usable uptrend_row"
    by (simp add: ma_usable_def uptrend_row_def guarded_row_def row_get_def)
  have a: "stage90_conditions uptrend_row"
    by (simp add: stage90_conditions_def uptrend_row_def guarded_row_def row_get_def)
  have b: "stage60_conditions uptrend_row"
    by (simp add: stage60_conditions_def uptrend_row_def guarded_row_def row_get_def)
  from classify_stage90_first [OF u a b] u a b show ?thesis by simp
qed

text \<open>
  Without the condition on MA50 and MA200 the statement fails: the guard at the
  head of the classifier answers first.  The row below meets the conditions of
  rules 1 and 4 with MA20 = 2 > MA50 = 1 > MA200 = 0 and is classified
  (50, Insufficient Data).
\<close>

theorem classify_guard_counterexample:
  "stage90_conditions guarded_row \<and> stage60_conditions guarded_row \<and>
   classify_wave_stage guarded_row = (50, ''Insufficient Data'') \<and>
   classify_wave_stage guarded_row \<noteq> (90, ''Stage 2 Mid (Strong Uptrend)'')"
  by (simp add: stage90_conditions_def stage60_conditions_def classify_wave_stage_def
      guarded_row_def row_get_def Let_def)

section \<open>The aggregator: final score and grade\<close>

text \<open>
  C2.  For every instrument with at least 20 price bars the result carries the
  stage score and label of the classifier and the fundamental score of the
  approximator, both on the latest derived row, and the flow score and label
  looked up for the ticker; its final score equals stage score \<times> 0.6 +
  fundamental score \<times> 1.0 + flow score \<times> 0.2, the fundamental score entering at
  full weight, and its grade follows from that final score by the thresholds
  \<ge> 85 S, \<ge> 75 A, \<ge> 65 B, \<ge> 55 C, \<ge> 45 D, else F.
\<close>

theorem analyze_stock_final_score:
  assumes "20 \<le> length (filter (\<lambda>b. bar_ticker b = tk) (prices_df self))"
  shows
   "(let latest = last (calculate_technical_indicators
                         (filter (\<lambda>b. bar_ticker b = tk) (prices_df self)));
         stage_score = fst (classify_wave_stage latest);
         fundamental = calculate_fundamental_score latest;
         flow_score = fst (lookup_supply_demand (institutional_df self) tk);
         final_score = of_int stage_score * 0.6 + of_int fundamental * 1.0
                       + of_int flow_score * 0.2
     in analyze_stock self tk =
          \<lparr> ticker = tk,
            wave_score = stage_score,
            wave_stage = snd (classify_wave_stage latest),
            final_investment_score = final_score,
            investment_grade =
              (if final_score \<ge> 85 then Grade_S
               else if final_score \<ge> 75 then Grade_A
               else if final_score \<ge> 65 then Grade_B
               else if final_score \<ge> 55 then Grade_C
               else if final_score \<ge> 45 then Grade_D
               else Grade_F),
            detail = Some \<lparr> current_price = row_get (close latest) (Fin 0),
                            supply_demand_score = flow_score,
                            supply_demand_stage =
                              snd (lookup_supply_demand (institutional_df self) tk),
                            fundamental_score = fundamental \<rparr> \<rparr>)"
proof -
  let ?data = "filter (\<lambda>b. bar_ticker b = tk) (prices_df self)"
  let ?latest = "last (calculate_technical_indicators ?data)"
  let ?w = "fst (classify_wave_stage ?latest)"
  let ?f = "calculate_fundamental_score ?latest"
  let ?s = "fst (lookup_supply_demand (institutional_df self) tk)"
  let ?final = "of_int ?w * 0.6 + of_int ?f * 1.0 + of_int ?s * 0.2 :: real"
  have ne: "?data \<noteq> []" using assms by auto
  have r: "analyze_stock self tk =
      \<lparr> ticker = tk, wave_score = ?w, wave_stage = snd (classify_wave_stage ?latest),
        final_investment_score = py_round ?final 2,
        investment_grade = grade_of ?final,
        detail = Some \<lparr> current_price = row_get (close ?latest) (Fin 0),
                        supply_demand_score = ?s,
                        supply_demand_stage =
                          snd (lookup_supply_demand (institutional_df self) tk),
                        fundamental_score = ?f \<rparr> \<rparr>"
    using assms ne by (simp add: analyze_stock_def Let_def split_beta)
  have p: "py_round ?final 2 = ?final" by (rule py_round_score)
  show ?thesis
    unfolding Let_def by (simp only: r p grade_of_def)
qed

text \<open>Twenty flat bars are classified (50, Neutral) with fundamental score 15.
  With flow score 70 the final score is 50 \<times> 0.6 + 15 + 70 \<times> 0.2 = 59, grade C;
  without a flow row it is 45, grade D.\<close>

theorem analyze_stock_final_score_witness:
  "20 \<le> length (filter (\<lambda>b. bar_ticker b = ''000003'') (prices_df universe3)) \<and>
   analyze_stock universe3 ''000003'' =
     \<lparr> ticker = ''000003'', wave_score = 50, wave_stage = ''Neutral'',
       final_investment_score = 59, investment_grade = Grade_C,
       detail = Some \<lparr> current_price = Fin 10, supply_demand_score = 70,
                       supply_demand_stage = ''Accumulation'', fundamental_score = 15 \<rparr> \<rparr> \<and>
   20 \<le> length (filter (\<lambda>b. bar_ticker b = ''000001'') (prices_df universe3)) \<and>
   analyze_stock universe3 ''000001'' =
     \<lparr> ticker = ''000001'', wave_score = 50, wave_stage = ''Neutral'',
       final_investment_score = 45, investment_grade = Grade_D,
       detail = Some \<lparr> current_price = Fin 10, supply_demand_score = 0,
                       supply_demand_stage = ''N/A'', fundamental_score = 15 \<rparr> \<rparr>"
proof -
  let ?l3 = "last (calculate_technical_indicators
                     (filter (\<lambda>b. bar_ticker b = ''000003'') (prices_df universe3)))"
  let ?l1 = "last (calculate_technical_indicators
                     (filter (\<lambda>b. bar_ticker b = ''000001'') (prices_df universe3)))"
  have h3: "20 \<le> length (filter (\<lambda>b. bar_ticker b = ''000003'') (prices_df universe3))"
    and h1: "20 \<le> length (filter (\<lambda>b. bar_ticker b = ''000001'') (prices_df universe3))"
    by code_simp+
  have c3: "classify_wave_stage ?l3 = (50, ''Neutral'')"
    and f3: "calculate_fundamental_score ?l3 = 15"
    and p3: "row_get (close ?l3) (Fin 0) = Fin 10"
    and s3: "lookup_supply_demand (institutional_df universe3) ''000003'' = (70, ''Accumulation'')"
    by code_simp+
  have c1: "classify_wave_stage ?l1 = (50, ''Neutral'')"
    and f1: "calculate_fundamental_score ?l1 = 15"
    and p1: "row_get (close ?l1) (Fin 0) = Fin 10"
    and s1: "lookup_supply_demand (institutional_df universe3) ''000001'' = (0, ''N/A'')"
    by code_simp+
  have r3: "analyze_stock universe3 ''000003'' =
     \<lparr> ticker = ''000003'', wave_score = 50, wave_stage = ''Neutral'',
       final_investment_score = 59, investment_grade = Grade_C,
       detail = Some \<lparr> current_price = Fin 10, supply_demand_score = 70,
                       supply_demand_stage = ''Accumulation'', fundamental_score = 15 \<rparr> \<rparr>"
    using analyze_stock_final_score [OF h3] by (simp add: Let_def c3 f3 p3 s3)
  have r1: "analyze_stock universe3 ''000001'' =
     \<lparr> ticker = ''000001'', wave_score = 50, wave_stage = ''Neutral'',
       final_investment_score = 45, investment_grade = Grade_D,
       detail = Some \<lparr> current_price = Fin 10, supply_demand_score = 0,
                       supply_demand_stage = ''N/A'', fundamental_score = 15 \<rparr> \<rparr>"
    using analyze_stock_final_score [OF h1] by (simp add: Let_def c1 f1 p1 s1)
  from h3 r3 h1 r1 show ?thesis by blast
qed

section \<open>The aggregator: short histories\<close>

text \<open>
  C3.  For every instrument whose price history has fewer than 20 bars, the
  empty history included, the analysis returns at once the result with final
  score 0, stage "Insufficient Data" and the grade marker of an instrument that
  cannot be scored; no indicator is derived and no stage classified (the result
  has no detail).
\<close>

theorem analyze_stock_insufficient:
  assumes "length (filter (\<lambda>b. bar_ticker b = tk) (prices_df self)) < 20"
  shows "analyze_stock self tk =
    \<lparr> ticker = tk, wave_score = 0, wave_stage = ''Insufficient Data'',
      final_investment_score = 0, investment_grade = Grade_Unscorable, detail = None \<rparr>"
  using assms by (simp add: analyze_stock_def insufficient_result_def Let_def)

text \<open>A ticker with two bars, and a ticker the table does not hold.\<close>

theorem analyze_stock_insufficient_witness:
  "length (filter (\<lambda>b. bar_ticker b = ''000002'') (prices_df universe3)) = 2 \<and>
   analyze_stock universe3 ''000002'' =
     \<lparr> ticker = ''000002'', wave_score = 0, wave_stage = ''Insufficient Data'',
       final_investment_score = 0, investment_grade = Grade_Unscorable, detail = None \<rparr> \<and>
   filter (\<lambda>b. bar_ticker b = ''999999'') (prices_df universe3) = [] \<and>
   analyze_stock universe3 ''999999'' =
     \<lparr> ticker = ''999999'', wave_score = 0, wave_stage = ''Insufficient Data'',
       final_investment_score = 0, investment_grade = Grade_Unscorable, detail = None \<rparr>"
proof -
  have a: "length (filter (\<lambda>b. bar_ticker b = ''000002'') (prices_df universe3)) = 2"
    by code_simp
  have b: "filter (\<lambda>b. bar_ticker b = ''999999'') (prices_df universe3) = []"
    by code_simp
  have "length (filter (\<lambda>b. bar_ticker b = ''000002'') (prices_df universe3)) < 20"
    using a by simp
  from analyze_stock_insufficient [OF this]
  have ra: "analyze_stock universe3 ''000002'' =
     \<lparr> ticker = ''000002'', wave_score = 0, wave_stage = ''Insufficient Data'',
       final_investment_score = 0, investment_grade = Grade_Unscorable, detail = None \<rparr>" .
  have "length (filter (\<lambda>b. bar_ticker b = ''999999'') (prices_df universe3)) < 20"
    using b by simp
  from analyze_stock_insufficient [OF this]
  have rb: "analyze_stock universe3 ''999999'' =
     \<lparr> ticker = ''999999'', wave_score = 0, wave_stage = ''Insufficient Data'',
       final_investment_score = 0, investment_grade = Grade_Unscorable, detail = None \<rparr>" .
  from a b ra rb show ?thesis by blast
qed

section \<open>The batch: order of the results\<close>




section \<open>Flow metrics: the buy-day ratio\<close>

text \<open>
  C5 (as amended).  For every flow input with at least 5 rows, the buy-day
  ratio of each investor class present equals the number of entries with
  strictly positive net value among the trailing (at most 20) rows, divided by
  the number of those rows: by 20 when the input has 20 rows or more, by the
  number of rows when it has fewer.
\<close>

theorem buy_ratio_over_trailing_rows:
  assumes "sorts_ascending date sort_values" and "5 \<le> length (flow_rows df)"
  shows
   "(has_institutional df \<longrightarrow>
       map_of (calculate_trend_metrics sort_values df) ''inst_buy_ratio'' =
         Some (real (length (filter (\<lambda>v. v > 0)
                 (tail 20 (map (\<lambda>r. fillna0 (institutional r)) (sort_values (flow_rows df))))))
               / real (min 20 (length (flow_rows df))))) \<and>
    (has_foreign df \<longrightarrow>
       map_of (calculate_trend_metrics sort_values df) ''frgn_buy_ratio'' =
         Some (real (length (filter (\<lambda>v. v > 0)
                 (tail 20 (map (\<lambda>r. fillna0 (foreign r)) (sort_values (flow_rows df))))))
               / real (min 20 (length (flow_rows df)))))"
proof -
  let ?rows = "sort_values (flow_rows df)"
  have "mset ?rows = mset (flow_rows df)"
    using assms(1) by (simp add: sorts_ascending_def)
  then have len: "length ?rows = length (flow_rows df)"
    by (rule mset_eq_length)
  have ne: "flow_rows df \<noteq> []" using assms(2) by auto
  have li: "5 \<le> length (map (\<lambda>r. fillna0 (institutional r)) ?rows)"
    and lf: "5 \<le> length (map (\<lambda>r. fillna0 (foreign r)) ?rows)"
    using assms(2) len by simp_all
  have m: "calculate_trend_metrics sort_values df =
      (if has_institutional df
       then class_metrics ''inst'' (map (\<lambda>r. fillna0 (institutional r)) ?rows) else []) @
      (if has_foreign df
       then class_metrics ''frgn'' (map (\<lambda>r. fillna0 (foreign r)) ?rows) else [])"
    using assms(2) ne by (simp add: calculate_trend_metrics_def Let_def)
  have "has_institutional df \<Longrightarrow>
      map_of (calculate_trend_metrics sort_values df) ''inst_buy_ratio'' =
        Some (buy_ratio (tail 20 (map (\<lambda>r. fillna0 (institutional r)) ?rows)))"
    by (simp only: m if_True map_of_inst_buy_ratio)
  moreover have "has_foreign df \<Longrightarrow>
      map_of (calculate_trend_metrics sort_values df) ''frgn_buy_ratio'' =
        Some (buy_ratio (tail 20 (map (\<lambda>r. fillna0 (foreign r)) ?rows)))"
    by (simp only: m if_True map_of_frgn_buy_ratio)
  ultimately show ?thesis
    using buy_ratio_tail [OF li] buy_ratio_tail [OF lf] len by simp
qed

text \<open>Six rows, four institutional and four foreign buying days: both ratios
  are 4/6.\<close>

theorem buy_ratio_over_trailing_rows_witness:
  "sorts_ascending date (sort_key date) \<and> 5 \<le> length (flow_rows six_days) \<and>
   has_institutional six_days \<and> has_foreign six_days \<and>
   map_of (calculate_trend_metrics (sort_key date) six_days) ''inst_buy_ratio'' = Some (4 / 6) \<and>
   map_of (calculate_trend_metrics (sort_key date) six_days) ''frgn_buy_ratio'' = Some (4 / 6)"
proof -
  have l: "5 \<le> length (flow_rows six_days)" by code_simp
  have hi: "has_institutional six_days" and hf: "has_foreign six_days" by code_simp+
  have ci: "length (filter (\<lambda>v. v > 0)
      (tail 20 (map (\<lambda>r. fillna0 (institutional r)) (sort_key date (flow_rows six_days))))) = 4"
    by code_simp
  have cf: "length (filter (\<lambda>v. v > 0)
      (tail 20 (map (\<lambda>r. fillna0 (foreign r)) (sort_key date (flow_rows six_days))))) = 4"
    by code_simp
  have n: "length (flow_rows six_days) = 6" by code_simp
  from buy_ratio_over_trailing_rows [OF sort_key_date_contract l] hi hf
  have "map_of (calculate_trend_metrics (sort_key date) six_days) ''inst_buy_ratio'' = Some (4 / 6)"
    and "map_of (calculate_trend_metrics (sort_key date) six_days) ''frgn_buy_ratio'' = Some (4 / 6)"
    by (simp_all add: ci cf n)
  with sort_key_date_contract l hi hf show ?thesis by blast
qed

text \<open>
  With the divisor fixed at 20 the statement fails on a short input: five rows,
  all of them institutional buying days, give the ratio 5/5 = 1, not 5/20.
\<close>

theorem buy_ratio_divisor_counterexample:
  "sorts_ascending date (sort_key date) \<and>
   5 \<le> length (flow_rows five_days) \<and> has_institutional five_days \<and>
   length (filter (\<lambda>v. v > 0)
     (tail 20 (map (\<lambda>r. fillna0 (institutional r)) (sort_key date (flow_rows five_days))))) = 5 \<and>
   map_of (calculate_trend_metrics (sort_key date) five_days) ''inst_buy_ratio'' = Some 1 \<and>
   (1 :: real) \<noteq> 5 / 20"
proof -
  have "5 \<le> length (flow_rows five_days)" "has_institutional five_days"
    by code_simp+
  moreover have "length (filter (\<lambda>v. v > 0)
     (tail 20 (map (\<lambda>r. fillna0 (institutional r)) (sort_key date (flow_rows five_days))))) = 5"
    by code_simp
  moreover have
    "map_of (calculate_trend_metrics (sort_key date) five_days) ''inst_buy_ratio'' = Some 1"
    by code_simp
  ultimately show ?thesis using sort_key_date_contract by simp
qed

section \<open>Indicators: the range of the RSI\<close>



section \<open>The flow scorer: the scenario\<close>

text \<open>
  C7.  For flow metrics with institutional 20-day sum +500, institutional
  consecutive-buy streak 4, institutional buy ratio 0.7 and a positive
  institutional trend slope, with foreign 20-day sum -300 and no foreign
  condition that earns a bonus, the flow scorer returns the score 70 and the
  stage label "Accumulation".
\<close>

theorem flow_scenario_score:
  assumes "metrics_get m ''inst_20d_sum'' = 500"
    and "metrics_get m ''inst_consecutive_buy'' = 4"
    and "metrics_get m ''inst_buy_ratio'' = 0.7"
    and "metrics_get m ''inst_trend_slope'' > 0"
    and "metrics_get m ''frgn_20d_sum'' = - 300"
    and "metrics_get m ''frgn_consecutive_buy'' < 3"
    and "metrics_get m ''frgn_buy_ratio'' < 0.6"
    and "metrics_get m ''frgn_trend_slope'' \<le> 0"
  shows "calculate_supply_demand_score m = (70, ''Accumulation'')"
proof -
  have ne: "m \<noteq> []"
    using assms(1) by (auto simp add: metrics_get_def)
  have "raw_supply_demand_score m = 70"
    using assms by (simp add: raw_supply_demand_score_def bonus_def)
  with ne show ?thesis
    by (simp add: calculate_supply_demand_score_def supply_demand_stage_of_def Let_def)
qed

theorem flow_scenario_score_witness:
  "metrics_get scenario_metrics ''inst_20d_sum'' = 500 \<and>
   metrics_get scenario_metrics ''inst_consecutive_buy'' = 4 \<and>
   metrics_get scenario_metrics ''inst_buy_ratio'' = 0.7 \<and>
   metrics_get scenario_metrics ''inst_trend_slope'' > 0 \<and>
   metrics_get scenario_metrics ''frgn_20d_sum'' = - 300 \<and>
   metrics_get scenario_metrics ''frgn_consecutive_buy'' < 3 \<and>
   metrics_get scenario_metrics ''frgn_buy_ratio'' < 0.6 \<and>
   metrics_get scenario_metrics ''frgn_trend_slope'' \<le> 0 \<and>
   calculate_supply_demand_score scenario_metrics = (70, ''Accumulation'')"
proof -
  have a: "metrics_get scenario_metrics ''inst_20d_sum'' = 500"
    and b: "metrics_get scenario_metrics ''inst_consecutive_buy'' = 4"
    and c: "metrics_get scenario_metrics ''inst_buy_ratio'' = 0.7"
    and d: "metrics_get scenario_metrics ''inst_trend_slope'' > 0"
    and e: "metrics_get scenario_metrics ''frgn_20d_sum'' = - 300"
    and f: "metrics_get scenario_metrics ''frgn_consecutive_buy'' < 3"
    and g: "metrics_get scenario_metrics ''frgn_buy_ratio'' < 0.6"
    and h: "metrics_get scenario_metrics ''frgn_trend_slope'' \<le> 0"
    by (simp_all add: scenario_metrics_def metrics_get_def)
  from flow_scenario_score [OF a b c d e f g h] a b c d e f g h show ?thesis by blast
qed

section \<open>Indicators: the volume ratio\<close>

text \<open>
  C8.  For every price history the volume ratio of every bar is a finite
  number, also on bars where the 20-bar volume moving average is 0: there the
  divisor is replaced by 1, the ratio equals the raw volume and nothing is
  divided by zero.
\<close>

theorem volume_ratio_finite:
  assumes "i < length df"
  shows "(\<exists>r. volume_ratio (calculate_technical_indicators df ! i) = Some (Fin r)) \<and>
         (volume_ma20 (calculate_technical_indicators df ! i) = Some (Fin 0) \<longrightarrow>
            volume_ratio (calculate_technical_indicators df ! i)
              = Some (Fin (bar_volume (df ! i))))"
proof -
  let ?v = "map bar_volume df"
  have "volume_ratio_column ?v ! i =
      volume_ratio_of (bar_volume (df ! i)) (volume_ma20_column ?v ! i)"
    using assms
    by (simp add: volume_ratio_column_def volume_ma20_column_def length_rolling_mean)
  then show ?thesis
    using assms by (simp add: volume_ratio_of_row volume_ma20_of_row volume_ratio_of_cases)
qed

text \<open>Volumes 0, 0, 5: on the second bar the moving average is 0 and the ratio
  is the volume itself; on the third it is 5 / (5/3) = 3.\<close>

theorem volume_ratio_finite_witness:
  "1 < length three_bars \<and>
   volume_ma20 (calculate_technical_indicators three_bars ! 1) = Some (Fin 0) \<and>
   volume_ratio (calculate_technical_indicators three_bars ! 1)
     = Some (Fin (bar_volume (three_bars ! 1))) \<and>
   volume_ratio (calculate_technical_indicators three_bars ! 2) = Some (Fin 3)"
proof -
  have h: "1 < length three_bars" by code_simp
  have z: "volume_ma20 (calculate_technical_indicators three_bars ! 1) = Some (Fin 0)"
    by code_simp
  have r: "volume_ratio (calculate_technical_indicators three_bars ! 2) = Some (Fin 3)"
    by code_simp
  from volume_ratio_finite [OF h] z
  have "volume_ratio (calculate_technical_indicators three_bars ! 1)
     = Some (Fin (bar_volume (three_bars ! 1)))"
    by blast
  with h z r show ?thesis by blast
qed

section \<open>The fundamental approximator: its range\<close>

text \<open>
  C9.  For every indicator row, rows without a volume-ratio or RSI field
  included, the fundamental approximator returns a score in [10, 20]: the base
  score 10 is a lower bound, so the scores below 10 are never returned.
\<close>

theorem fundamental_score_range:
  "10 \<le> calculate_fundamental_score row \<and> calculate_fundamental_score row \<le> 20"
  by (simp add: calculate_fundamental_score_def Let_def)

section \<open>The flow scorer: its range\<close>

text \<open>
  C10.  For every non-empty flow-metrics input the score before clamping is at
  least 30 (the deductions take at most 20 from the baseline 50 and no bonus is
  negative), so the clamped score lies in [30, 100]; the score 0 is returned
  for empty metrics only.
\<close>

theorem supply_demand_score_range:
  "(metrics \<noteq> [] \<longrightarrow>
      30 \<le> raw_supply_demand_score metrics \<and>
      30 \<le> fst (calculate_supply_demand_score metrics) \<and>
      fst (calculate_supply_demand_score metrics) \<le> 100) \<and>
   (fst (calculate_supply_demand_score metrics) = 0 \<longleftrightarrow> metrics = [])"
  using raw_score_lower [of metrics]
  by (auto simp add: calculate_supply_demand_score_def Let_def)

text \<open>Both 20-day sums negative and nothing else: the lower end, 30.\<close>

theorem supply_demand_score_range_witness:
  "selling_metrics \<noteq> [] \<and>
   raw_supply_demand_score selling_metrics = 30 \<and>
   calculate_supply_demand_score selling_metrics = (30, ''Strong Distribution'') \<and>
   30 \<le> fst (calculate_supply_demand_score selling_metrics) \<and>
   fst (calculate_supply_demand_score selling_metrics) \<le> 100"
proof -
  have ne: "selling_metrics \<noteq> []" by (simp add: selling_metrics_def)
  have raw: "raw_supply_demand_score selling_metrics = 30"
    by (simp add: raw_supply_demand_score_def selling_metrics_def metrics_get_def bonus_def)
  have v: "calculate_supply_demand_score selling_metrics = (30, ''Strong Distribution'')"
    using ne by (simp add: calculate_supply_demand_score_def raw supply_demand_stage_of_def)
  from supply_demand_score_range [of selling_metrics] ne raw v show ?thesis by blast
qed

end
